theory Spec2Isabelle
  imports Main "HOL-Library.Word"
begin

unbundle bit_operations_syntax

section \<open>Machine integers and the 256-bit word\<close>

text \<open>
  The interpreter of \<^verbatim>\<open>src/evm/interpreter.cpp\<close> works on fixed-width C++ integers.
  \<^verbatim>\<open>uint8_t\<close>, \<^verbatim>\<open>uint16_t\<close>, \<^verbatim>\<open>int16_t\<close> and \<^verbatim>\<open>uint64_t\<close> are words of that width;
  \<^verbatim>\<open>size_t\<close> is taken to be 64 bits wide (an LP64 target), so that
  \<^verbatim>\<open>static_cast<size_t>\<close> of a \<^verbatim>\<open>uint64_t\<close> keeps the value.
\<close>

type_synonym uint8 = "8 word"
type_synonym uint16 = "16 word"
type_synonym int16 = "16 word"
type_synonym uint64 = "64 word"
type_synonym size_t = "64 word"

text \<open>
  \<^verbatim>\<open>struct UInt256 { std::array<uint8_t, 32> Bytes{}; }\<close>: 32 bytes, least significant
  first. The array is a list; a well-formed value has exactly 32 entries.
\<close>

record UInt256 =
  Bytes :: "uint8 list"

definition UInt256_init :: UInt256 where
  \<comment> \<open>value initialisation \<^verbatim>\<open>UInt256 Res{}\<close>: all 32 bytes are zero\<close>
  "UInt256_init = \<lparr>Bytes = replicate 32 0\<rparr>"

definition is_UInt256 :: "UInt256 \<Rightarrow> bool" where
  "is_UInt256 A = (length (Bytes A) = 32)"

text \<open>The number a little-endian digit sequence (base 256) stands for.\<close>

fun le_nat :: "'a::len word list \<Rightarrow> nat" where
  "le_nat [] = 0"
| "le_nat (d # ds) = unat d + 256 * le_nat ds"

definition val256 :: "UInt256 \<Rightarrow> nat" where
  "val256 A = le_nat (Bytes A)"

subsection \<open>addUInt256\<close>

text \<open>
  One iteration of the loop of \<^verbatim>\<open>addUInt256\<close>; the state is \<^verbatim>\<open>(Res, Carry)\<close>:
  \<^verbatim>\<open>
  uint16_t Sum = static_cast<uint16_t>(A.Bytes[i]) + static_cast<uint16_t>(B.Bytes[i]) + Carry;
  Res.Bytes[i] = static_cast<uint8_t>(Sum & 0xFF);
  Carry = Sum >> 8;
  \<close>
\<close>

definition add_iter :: "UInt256 \<Rightarrow> UInt256 \<Rightarrow> nat \<Rightarrow> UInt256 \<times> uint16 \<Rightarrow> UInt256 \<times> uint16" where
  "add_iter A B i = (\<lambda>(Res, Carry).
     let Sum = (ucast (Bytes A ! i) :: uint16) + ucast (Bytes B ! i) + Carry
     in (Res\<lparr>Bytes := (Bytes Res)[i := ucast (Sum AND 0xFF)]\<rparr>, drop_bit 8 Sum))"

definition addUInt256 :: "UInt256 \<Rightarrow> UInt256 \<Rightarrow> UInt256" where
  \<comment> \<open>\<^verbatim>\<open>for (size_t i = 0; i < 32; ++i)\<close>; the carry left at the end is dropped\<close>
  "addUInt256 A B = fst (fold (add_iter A B) [0..<32] (UInt256_init, 0))"

subsection \<open>The subtraction loop of the SUB case\<close>

text \<open>
  \<^verbatim>\<open>
  int16_t Diff = static_cast<int16_t>(A.Bytes[i]) - static_cast<int16_t>(B.Bytes[i]) - Borrow;
  if (Diff < 0) { Diff += 256; Borrow = 1; } else { Borrow = 0; }
  Res.Bytes[i] = static_cast<uint8_t>(Diff & 0xFF);
  \<close>
  \<^verbatim>\<open>Diff < 0\<close> is the signed comparison of \<^verbatim>\<open>int16_t\<close>.
\<close>

definition sub_iter :: "UInt256 \<Rightarrow> UInt256 \<Rightarrow> nat \<Rightarrow> UInt256 \<times> int16 \<Rightarrow> UInt256 \<times> int16" where
  "sub_iter A B i = (\<lambda>(Res, Borrow).
     let Diff = (ucast (Bytes A ! i) :: int16) - ucast (Bytes B ! i) - Borrow;
         (Diff', Borrow') = (if Diff <s 0 then (Diff + 256, 1) else (Diff, 0))
     in (Res\<lparr>Bytes := (Bytes Res)[i := ucast (Diff' AND 0xFF)]\<rparr>, Borrow'))"

definition subUInt256 :: "UInt256 \<Rightarrow> UInt256 \<Rightarrow> UInt256" where
  "subUInt256 A B = fst (fold (sub_iter A B) [0..<32] (UInt256_init, 0))"

subsection \<open>The multiplication loops of the MUL case\<close>

text \<open>
  The 512-bit intermediate \<^verbatim>\<open>uint16_t Temp[64]\<close> is a list of 64 words of 16 bits.
  The inner \<^verbatim>\<open>while (Carry)\<close> loop indexes \<^verbatim>\<open>Temp[idx]\<close> with no bound check; an index
  of 64 or more is outside the array, which the model reports as \<open>None\<close>.
  \<^verbatim>\<open>
  while (Carry) {
    uint16_t Sum = Temp[idx] + Carry;
    Temp[idx] = Sum & 0xFF;
    Carry = Sum >> 8;
    ++idx;
  }
  \<close>
\<close>

function carry_loop :: "uint16 list \<Rightarrow> uint16 \<Rightarrow> nat \<Rightarrow> uint16 list option" where
  "carry_loop Temp Carry idx =
     (if Carry = 0 then Some Temp
      else if 64 \<le> idx then None
      else let Sum = Temp ! idx + Carry
           in carry_loop (Temp[idx := Sum AND 0xFF]) (drop_bit 8 Sum) (idx + 1))"
  by pat_completeness auto
termination
  by (relation "measure (\<lambda>(Temp, Carry, idx). 64 - idx)") auto

declare carry_loop.simps [simp del]

definition mul_inner :: "UInt256 \<Rightarrow> UInt256 \<Rightarrow> nat \<Rightarrow> nat \<Rightarrow> uint16 list \<Rightarrow> uint16 list option" where
  \<comment> \<open>the body of \<^verbatim>\<open>for j\<close>: \<^verbatim>\<open>k = i + j\<close>, \<^verbatim>\<open>P = A.Bytes[i] * B.Bytes[j]\<close>, \<^verbatim>\<open>Carry = P\<close>, \<^verbatim>\<open>idx = k\<close>\<close>
  "mul_inner A B i j Temp =
     (let k = i + j;
          P = (ucast (Bytes A ! i) :: uint16) * ucast (Bytes B ! j)
      in carry_loop Temp P k)"

definition mul_row :: "UInt256 \<Rightarrow> UInt256 \<Rightarrow> nat \<Rightarrow> uint16 list option \<Rightarrow> uint16 list option" where
  \<comment> \<open>\<^verbatim>\<open>for (size_t j = 0; j < 32; ++j)\<close>\<close>
  "mul_row A B i T = fold (\<lambda>j T. Option.bind T (mul_inner A B i j)) [0..<32] T"

definition mul_accumulate :: "UInt256 \<Rightarrow> UInt256 \<Rightarrow> uint16 list option" where
  \<comment> \<open>\<^verbatim>\<open>uint16_t Temp[64] = {0}; for (size_t i = 0; i < 32; ++i)\<close>\<close>
  "mul_accumulate A B = fold (mul_row A B) [0..<32] (Some (replicate 64 0))"

definition mul_low :: "uint16 list \<Rightarrow> UInt256" where
  \<comment> \<open>\<^verbatim>\<open>for (size_t i = 0; i < 32; ++i) Res.Bytes[i] = static_cast<uint8_t>(Temp[i]);\<close>\<close>
  "mul_low Temp = fold (\<lambda>i Res. Res\<lparr>Bytes := (Bytes Res)[i := ucast (Temp ! i)]\<rparr>) [0..<32] UInt256_init"

definition mulUInt256 :: "UInt256 \<Rightarrow> UInt256 \<Rightarrow> UInt256 option" where
  "mulUInt256 A B = map_option mul_low (mul_accumulate A B)"


section \<open>Faults and the ways an opcode can stop the interpreter\<close>

text \<open>
  \<^verbatim>\<open>common::ErrorCode\<close> is declared in \<^verbatim>\<open>common/errors.h\<close>; the interpreter throws these
  three of its codes and no other.
\<close>

datatype ErrorCode = UnexpectedNumArgs | UnexpectedEnd | UnsupportedOpcode

text \<open>
  Modelled from the spec: \<^verbatim>\<open>ZEN_ASSERT\<close> (a macro of \<^verbatim>\<open>common/defines.h\<close>) guards the stack
  helpers with "manual bounds assertions". A violated assertion stops the run as
  \<open>AssertionFailed\<close>; it is not one of the thrown error codes. An access outside an
  array or vector that no assertion guards is \<open>OutOfRange\<close>.
\<close>

datatype Halt = Thrown ErrorCode | AssertionFailed | OutOfRange

section \<open>Frames\<close>

record ControlBlock =
  TargetPc :: nat
  StackHeight :: nat

text \<open>
  \<^verbatim>\<open>struct EVMFrame\<close>. The code buffer of \<^verbatim>\<open>FuncInst\<close> is the list \<open>Code\<close>; \<open>Pc\<close> is the
  offset of the program counter from \<^verbatim>\<open>CodePtr\<close>, and \<^verbatim>\<open>CodeEnd\<close>, which \<^verbatim>\<open>allocFrame\<close>
  sets to \<^verbatim>\<open>CodePtr + CodeSize\<close>, is the length of the buffer. The fixed array
  \<^verbatim>\<open>std::array<UInt256, MAX_STACK> Stack\<close> is a function from the index, \<open>Sp\<close> the next
  free slot. The link \<^verbatim>\<open>PrevFrame\<close> is the position in the frame chain of the context.
\<close>

record EVMFrame =
  Code :: "uint8 list"
  Pc :: nat
  Stack :: "nat \<Rightarrow> UInt256"
  Sp :: nat
  Memory :: "uint8 list"
  CtrlStack :: "ControlBlock list"
  GasLeft :: uint64

definition MAX_STACK :: nat where
  "MAX_STACK = 1024"

definition CodeEnd :: "EVMFrame \<Rightarrow> nat" where
  "CodeEnd Frame = length (Code Frame)"

definition Stack_init :: "nat \<Rightarrow> UInt256" where
  "Stack_init = (\<lambda>i. UInt256_init)"

definition push :: "UInt256 \<Rightarrow> EVMFrame \<Rightarrow> Halt + EVMFrame" where
  \<comment> \<open>\<^verbatim>\<open>ZEN_ASSERT(Sp < MAX_STACK); Stack[Sp++] = V;\<close>\<close>
  "push V Frame =
     (if Sp Frame < MAX_STACK
      then Inr (Frame\<lparr>Stack := (Stack Frame)(Sp Frame := V), Sp := Sp Frame + 1\<rparr>)
      else Inl AssertionFailed)"

definition pop :: "EVMFrame \<Rightarrow> Halt + UInt256 \<times> EVMFrame" where
  \<comment> \<open>\<^verbatim>\<open>ZEN_ASSERT(Sp > 0); return Stack[--Sp];\<close>\<close>
  "pop Frame =
     (if 0 < Sp Frame
      then Inr (Stack Frame (Sp Frame - 1), Frame\<lparr>Sp := Sp Frame - 1\<rparr>)
      else Inl AssertionFailed)"

definition peek :: "nat \<Rightarrow> EVMFrame \<Rightarrow> Halt + nat" where
  \<comment> \<open>\<^verbatim>\<open>ZEN_ASSERT(Index < Sp); return Stack[Sp - 1 - Index];\<close> The reference returned is
      the slot's index.\<close>
  "peek Index Frame =
     (if Index < Sp Frame then Inr (Sp Frame - 1 - Index) else Inl AssertionFailed)"

definition stackHeight :: "EVMFrame \<Rightarrow> nat" where
  "stackHeight Frame = Sp Frame"

section \<open>Opcodes\<close>

text \<open>\<^verbatim>\<open>enum class Opcode : uint8_t\<close>: the values the interpreter's \<^verbatim>\<open>switch\<close> names.\<close>

definition STOP :: uint8 where "STOP = 0x00"
definition ADD :: uint8 where "ADD = 0x01"
definition MUL :: uint8 where "MUL = 0x02"
definition SUB :: uint8 where "SUB = 0x03"
definition POP :: uint8 where "POP = 0x50"
definition MSTORE :: uint8 where "MSTORE = 0x52"
definition RETURN :: uint8 where "RETURN = 0xF3"

lemmas Opcode_defs = STOP_def ADD_def MUL_def SUB_def POP_def MSTORE_def RETURN_def

section \<open>One opcode\<close>

text \<open>
  What one pass through the \<^verbatim>\<open>switch\<close> does to the current frame: \<open>Continue\<close> is
  \<^verbatim>\<open>break\<close> (the loop goes on with this frame), \<open>EndCall\<close> is the end of the
  invocation (the frame is about to be freed; RETURN hands over the return data), and
  \<open>Abort\<close> is a throw, a failed assertion or an access out of range. Each carries the
  frame as it is at that moment.
\<close>

datatype Exit = CodeEndReached | StopExecuted | ReturnExecuted

datatype Step =
    Continue EVMFrame
  | EndCall Exit EVMFrame "uint8 list option"
  | Abort Halt EVMFrame

definition exec_ADD :: "EVMFrame \<Rightarrow> Step" where
  "exec_ADD Frame =
     (if stackHeight Frame < 2 then Abort (Thrown UnexpectedNumArgs) Frame
      else case pop Frame of Inl h \<Rightarrow> Abort h Frame | Inr (B, F1) \<Rightarrow>
           case pop F1 of Inl h \<Rightarrow> Abort h F1 | Inr (A, F2) \<Rightarrow>
           let C = addUInt256 A B
           in case push C F2 of Inl h \<Rightarrow> Abort h F2 | Inr F3 \<Rightarrow> Continue F3)"

definition exec_SUB :: "EVMFrame \<Rightarrow> Step" where
  "exec_SUB Frame =
     (if stackHeight Frame < 2 then Abort (Thrown UnexpectedNumArgs) Frame
      else case pop Frame of Inl h \<Rightarrow> Abort h Frame | Inr (B, F1) \<Rightarrow>
           case pop F1 of Inl h \<Rightarrow> Abort h F1 | Inr (A, F2) \<Rightarrow>
           let Res = subUInt256 A B
           in case push Res F2 of Inl h \<Rightarrow> Abort h F2 | Inr F3 \<Rightarrow> Continue F3)"

definition exec_MUL :: "EVMFrame \<Rightarrow> Step" where
  "exec_MUL Frame =
     (if stackHeight Frame < 2 then Abort (Thrown UnexpectedNumArgs) Frame
      else case pop Frame of Inl h \<Rightarrow> Abort h Frame | Inr (B, F1) \<Rightarrow>
           case pop F1 of Inl h \<Rightarrow> Abort h F1 | Inr (A, F2) \<Rightarrow>
           case mulUInt256 A B of None \<Rightarrow> Abort OutOfRange F2 | Some Res \<Rightarrow>
           case push Res F2 of Inl h \<Rightarrow> Abort h F2 | Inr F3 \<Rightarrow> Continue F3)"

definition exec_POP :: "EVMFrame \<Rightarrow> Step" where
  "exec_POP Frame =
     (if stackHeight Frame < 1 then Abort (Thrown UnexpectedNumArgs) Frame
      else case pop Frame of Inl h \<Rightarrow> Abort h Frame | Inr (V, F1) \<Rightarrow> Continue F1)"

text \<open>
  \<^verbatim>\<open>uint64_t Offset = 0; for (int i = 7; i >= 0; --i) Offset = (Offset << 8) | OffsetVal.Bytes[i];\<close>
\<close>

definition low64 :: "UInt256 \<Rightarrow> uint64" where
  "low64 V = fold (\<lambda>i Offset. push_bit 8 Offset OR ucast (Bytes V ! i)) (rev [0..<8]) 0"

definition resize :: "nat \<Rightarrow> uint8 list \<Rightarrow> uint8 list" where
  \<comment> \<open>\<^verbatim>\<open>std::vector<uint8_t>::resize(n, 0)\<close>; the allocation is taken to succeed\<close>
  "resize n M = (if n \<le> length M then take n M else M @ replicate (n - length M) 0)"

definition mstore_iter :: "size_t \<Rightarrow> UInt256 \<Rightarrow> nat \<Rightarrow> uint8 list option \<Rightarrow> uint8 list option" where
  \<comment> \<open>\<^verbatim>\<open>Frame->Memory[Off + i] = Value.Bytes[31 - i];\<close> with \<^verbatim>\<open>Off + i\<close> computed in
      \<^verbatim>\<open>size_t\<close>; \<^verbatim>\<open>operator[]\<close> does not check the index\<close>
  "mstore_iter Off Value i M =
     (case M of None \<Rightarrow> None
      | Some m \<Rightarrow>
          let idx = unat (Off + of_nat i)
          in if idx < length m then Some (m[idx := Bytes Value ! (31 - i)]) else None)"

definition exec_MSTORE :: "EVMFrame \<Rightarrow> Step" where
  "exec_MSTORE Frame =
     (if stackHeight Frame < 2 then Abort (Thrown UnexpectedNumArgs) Frame
      else case pop Frame of Inl h \<Rightarrow> Abort h Frame | Inr (OffsetVal, F1) \<Rightarrow>
           case pop F1 of Inl h \<Rightarrow> Abort h F1 | Inr (Value, F2) \<Rightarrow>
           let Offset = low64 OffsetVal;
               Off = (Offset :: size_t);
               NeedSize = Off + 32;
               F3 = (if length (Memory F2) < unat NeedSize
                     then F2\<lparr>Memory := resize (unat NeedSize) (Memory F2)\<rparr> else F2)
           in case fold (mstore_iter Off Value) [0..<32] (Some (Memory F3)) of
                None \<Rightarrow> Abort OutOfRange F3
              | Some m \<Rightarrow> Continue (F3\<lparr>Memory := m\<rparr>))"

definition exec_RETURN :: "EVMFrame \<Rightarrow> Step" where
  \<comment> \<open>the range \<^verbatim>\<open>[Memory.begin() + Off, Memory.begin() + Off + Len)\<close> must lie inside
      the vector\<close>
  "exec_RETURN Frame =
     (if stackHeight Frame < 2 then Abort (Thrown UnexpectedNumArgs) Frame
      else case pop Frame of Inl h \<Rightarrow> Abort h Frame | Inr (OffsetVal, F1) \<Rightarrow>
           case pop F1 of Inl h \<Rightarrow> Abort h F1 | Inr (SizeVal, F2) \<Rightarrow>
           let Offset = low64 OffsetVal;
               Size = low64 SizeVal;
               Off = (Offset :: size_t);
               Len = (Size :: size_t);
               F3 = (if length (Memory F2) < unat (Off + Len)
                     then F2\<lparr>Memory := resize (unat (Off + Len)) (Memory F2)\<rparr> else F2)
           in if unat Off + unat Len \<le> length (Memory F3)
              then EndCall ReturnExecuted F3 (Some (take (unat Len) (drop (unat Off) (Memory F3))))
              else Abort OutOfRange F3)"

definition exec_PUSH :: "uint8 \<Rightarrow> EVMFrame \<Rightarrow> Step" where
  \<comment> \<open>\<^verbatim>\<open>for (uint8_t i = 0; i < NumBytes; ++i) Val.Bytes[i] = *(PcRef + NumBytes - 1 - i);\<close>\<close>
  "exec_PUSH RawOp Frame =
     (let NumBytes = RawOp - 0x5F
      in if CodeEnd Frame < Pc Frame + unat NumBytes then Abort (Thrown UnexpectedEnd) Frame
         else let Val = fold (\<lambda>i Val. Val\<lparr>Bytes := (Bytes Val)
                                 [i := Code Frame ! (Pc Frame + unat NumBytes - 1 - i)]\<rparr>)
                             [0..<unat NumBytes] UInt256_init;
                  F1 = Frame\<lparr>Pc := Pc Frame + unat NumBytes\<rparr>
              in case push Val F1 of Inl h \<Rightarrow> Abort h F1 | Inr F2 \<Rightarrow> Continue F2)"

definition exec_DUP :: "uint8 \<Rightarrow> EVMFrame \<Rightarrow> Step" where
  "exec_DUP RawOp Frame =
     (let N = RawOp - 0x7F
      in if stackHeight Frame < unat N then Abort (Thrown UnexpectedNumArgs) Frame
         else case peek (unat N - 1) Frame of Inl h \<Rightarrow> Abort h Frame | Inr v \<Rightarrow>
              let V = Stack Frame v
              in case push V Frame of Inl h \<Rightarrow> Abort h Frame | Inr F1 \<Rightarrow> Continue F1)"

definition exec_SWAP :: "uint8 \<Rightarrow> EVMFrame \<Rightarrow> Step" where
  \<comment> \<open>\<^verbatim>\<open>std::swap(Top, Nth)\<close> on the two slots\<close>
  "exec_SWAP RawOp Frame =
     (let N = RawOp - 0x8F
      in if stackHeight Frame \<le> unat N then Abort (Thrown UnexpectedNumArgs) Frame
         else case peek 0 Frame of Inl h \<Rightarrow> Abort h Frame | Inr Top \<Rightarrow>
              case peek (unat N) Frame of Inl h \<Rightarrow> Abort h Frame | Inr Nth \<Rightarrow>
              Continue (Frame\<lparr>Stack := (Stack Frame)(Top := Stack Frame Nth, Nth := Stack Frame Top)\<rparr>))"

definition exec_op :: "uint8 \<Rightarrow> EVMFrame \<Rightarrow> Step" where
  \<comment> \<open>the \<^verbatim>\<open>switch (Op)\<close>, its \<^verbatim>\<open>default\<close> branch last\<close>
  "exec_op Op Frame =
     (if Op = STOP then EndCall StopExecuted Frame None
      else if Op = ADD then exec_ADD Frame
      else if Op = SUB then exec_SUB Frame
      else if Op = MUL then exec_MUL Frame
      else if Op = POP then exec_POP Frame
      else if Op = MSTORE then exec_MSTORE Frame
      else if Op = RETURN then exec_RETURN Frame
      else let RawOp = Op
           in if 0x60 \<le> RawOp \<and> RawOp \<le> 0x7F then exec_PUSH RawOp Frame
              else if 0x80 \<le> RawOp \<and> RawOp \<le> 0x8F then exec_DUP RawOp Frame
              else if 0x90 \<le> RawOp \<and> RawOp \<le> 0x9F then exec_SWAP RawOp Frame
              else Abort (Thrown UnsupportedOpcode) Frame)"

definition fetch_exec :: "EVMFrame \<Rightarrow> Step" where
  \<comment> \<open>one turn of the loop on the current frame: the end-of-code test, then
      \<^verbatim>\<open>Opcode Op = static_cast<Opcode>(*PcRef++)\<close> and the \<^verbatim>\<open>switch\<close>\<close>
  "fetch_exec Frame =
     (if CodeEnd Frame \<le> Pc Frame then EndCall CodeEndReached Frame None
      else exec_op (Code Frame ! Pc Frame) (Frame\<lparr>Pc := Pc Frame + 1\<rparr>))"

section \<open>The execution context and the interpreter loop\<close>

text \<open>
  \<^verbatim>\<open>class InterpreterExecContext\<close>: \<open>Frames\<close> is the chain that starts at \<^verbatim>\<open>CurFrame\<close> and
  follows \<^verbatim>\<open>PrevFrame\<close>; the empty chain is the null pointer. The handles \<^verbatim>\<open>ModInst\<close> and
  \<^verbatim>\<open>StackMgr\<close> are not used by the interpreter.
\<close>

record InterpreterExecContext =
  Frames :: "EVMFrame list"
  ReturnData :: "uint8 list"

definition allocFrame :: "uint8 list option \<Rightarrow> InterpreterExecContext \<Rightarrow> InterpreterExecContext" where
  \<comment> \<open>the argument is the code buffer of \<^verbatim>\<open>FuncInst\<close>, \<open>None\<close> for a null \<^verbatim>\<open>FuncInst\<close>
      (then \<^verbatim>\<open>Pc\<close> and \<^verbatim>\<open>CodeEnd\<close> are both null)\<close>
  "allocFrame FuncInst Ctx =
     (let Frame = \<lparr>Code = (case FuncInst of None \<Rightarrow> [] | Some code \<Rightarrow> code), Pc = 0,
                    Stack = Stack_init, Sp = 0, Memory = [], CtrlStack = [], GasLeft = 0\<rparr>
      in Ctx\<lparr>Frames := Frame # Frames Ctx\<rparr>)"

definition freeFrame :: "InterpreterExecContext \<Rightarrow> InterpreterExecContext" where
  \<comment> \<open>\<^verbatim>\<open>freeFrame(Frame)\<close> for the current frame: \<^verbatim>\<open>if (!Frame) return;
      setCurFrame(Frame->PrevFrame); delete Frame;\<close>\<close>
  "freeFrame Ctx = (case Frames Ctx of [] \<Rightarrow> Ctx | Frame # Prev \<Rightarrow> Ctx\<lparr>Frames := Prev\<rparr>)"

definition setReturnData :: "uint8 list \<Rightarrow> InterpreterExecContext \<Rightarrow> InterpreterExecContext" where
  "setReturnData Data Ctx = Ctx\<lparr>ReturnData := Data\<rparr>"

definition getReturnData :: "InterpreterExecContext \<Rightarrow> uint8 list" where
  "getReturnData Ctx = ReturnData Ctx"

datatype Result =
    Finished Exit InterpreterExecContext
  | Aborted Halt InterpreterExecContext

definition frames_left :: "InterpreterExecContext \<Rightarrow> nat" where
  \<comment> \<open>what is left to run: for every frame of the chain, one more than its unread code\<close>
  "frames_left Ctx = sum_list (map (\<lambda>F. Suc (length (Code F) - Pc F)) (Frames Ctx))"


text \<open>
  \<^verbatim>\<open>BaseInterpreter::interpret\<close>. The entry assertion \<^verbatim>\<open>ZEN_ASSERT(Frame && ...)\<close> is the
  case of the empty chain; inside the loop the frame is never null, since both
  \<^verbatim>\<open>continue\<close>s follow a test of \<^verbatim>\<open>getCurFrame()\<close>. The three \<^verbatim>\<open>return\<close> statements give
  \<open>Finished\<close>, tagged with the statement taken; a \<^verbatim>\<open>throw\<close> leaves the loop as \<open>Aborted\<close>.
  \<^verbatim>\<open>while (true)\<close> always ends: every turn reads a byte of code or frees a frame.
\<close>

function interpret_evm :: "InterpreterExecContext \<Rightarrow> Result" where
  "interpret_evm Ctx =
     (case Frames Ctx of
        [] \<Rightarrow> Aborted AssertionFailed Ctx
      | Frame # Prev \<Rightarrow>
          (case fetch_exec Frame of
             Continue F \<Rightarrow> interpret_evm (Ctx\<lparr>Frames := F # Prev\<rparr>)
           | EndCall how F Ret \<Rightarrow>
               let Ctx1 = Ctx\<lparr>Frames := F # Prev\<rparr>;
                   Ctx2 = (case Ret of None \<Rightarrow> Ctx1 | Some Data \<Rightarrow> setReturnData Data Ctx1);
                   Ctx3 = freeFrame Ctx2
               in if Frames Ctx3 = [] then Finished how Ctx3 else interpret_evm Ctx3
           | Abort h F \<Rightarrow> Aborted h (Ctx\<lparr>Frames := F # Prev\<rparr>)))"
  by pat_completeness auto
termination
proof (relation "measure frames_left")
  show "wf (measure frames_left)" by simp
next
  fix Ctx :: InterpreterExecContext and Frame Prev F
  assume fr: "Frames Ctx = Frame # Prev" and st: "fetch_exec Frame = Continue F"
  have pushres: "\<And>V G G'. push V G = Inr G' \<Longrightarrow> Code G' = Code G \<and> Pc G' = Pc G"
    by (auto simp: push_def split: if_splits)
  have popres: "\<And>V G G'. pop G = Inr (V, G') \<Longrightarrow> Code G' = Code G \<and> Pc G' = Pc G"
    by (auto simp: pop_def split: if_splits)
  have ex: "\<And>Op G. exec_op Op G = Continue F \<Longrightarrow> Code F = Code G \<and> Pc G \<le> Pc F"
    unfolding exec_op_def exec_ADD_def exec_SUB_def exec_MUL_def exec_POP_def
      exec_MSTORE_def exec_RETURN_def exec_PUSH_def exec_DUP_def exec_SWAP_def Let_def
    by (auto split: if_splits sum.splits option.splits prod.splits dest!: pushres popres)
  from st have lt: "Pc Frame < length (Code Frame)"
    by (auto simp: fetch_exec_def CodeEnd_def split: if_splits)
  with st have "exec_op (Code Frame ! Pc Frame) (Frame\<lparr>Pc := Pc Frame + 1\<rparr>) = Continue F"
    by (simp add: fetch_exec_def CodeEnd_def)
  from ex [OF this] have "Code F = Code Frame" and "Pc Frame < Pc F" by simp_all
  with lt fr show "(Ctx\<lparr>Frames := F # Prev\<rparr>, Ctx) \<in> measure frames_left"
    by (simp add: frames_left_def)
next
  fix Ctx :: InterpreterExecContext and Frame Prev how F Ret Ctx1 Ctx2 Ctx3
  assume "Frames Ctx = Frame # Prev"
    and "Ctx1 = Ctx\<lparr>Frames := F # Prev\<rparr>"
    and "Ctx2 = (case Ret of None \<Rightarrow> Ctx1 | Some Data \<Rightarrow> setReturnData Data Ctx1)"
    and "Ctx3 = freeFrame Ctx2"
  then show "(Ctx3, Ctx) \<in> measure frames_left"
    by (simp add: frames_left_def freeFrame_def setReturnData_def split: option.splits)
qed

declare interpret_evm.simps [simp del]

definition Ctx_init :: InterpreterExecContext where
  \<comment> \<open>a context as constructed: no frame, no return data\<close>
  "Ctx_init = \<lparr>Frames = [], ReturnData = []\<rparr>"

definition run_code :: "uint8 list \<Rightarrow> Result" where
  \<comment> \<open>\<^verbatim>\<open>allocFrame\<close> for the code, then \<^verbatim>\<open>interpret\<close>\<close>
  "run_code code = interpret_evm (allocFrame (Some code) Ctx_init)"

fun final_ctx :: "Result \<Rightarrow> InterpreterExecContext" where
  "final_ctx (Finished how Ctx) = Ctx"
| "final_ctx (Aborted h Ctx) = Ctx"

section \<open>Notions of the specification\<close>

text \<open>
  The number of stack operands an opcode requires, as the specification's opcode table
  and transition rule give it (this definition follows the specification, not the code):
  two for ADD, MUL, SUB, MSTORE and RETURN, one for POP, \<open>N\<close> for \<open>DUPN\<close>, and \<open>N + 1\<close> for
  \<open>SWAPN\<close> ("require Height > N"); none for STOP, PUSH and the unsupported bytes.
\<close>

definition spec_operands :: "uint8 \<Rightarrow> nat" where
  "spec_operands Op =
     (if Op \<in> {0x01, 0x02, 0x03, 0x52, 0xF3} then 2
      else if Op = 0x50 then 1
      else if 0x80 \<le> Op \<and> Op \<le> 0x8F then unat Op - 0x7F
      else if 0x90 \<le> Op \<and> Op \<le> 0x9F then unat Op - 0x8F + 1
      else 0)"

text \<open>The number a big-endian byte sequence stands for.\<close>

definition be_nat :: "uint8 list \<Rightarrow> nat" where
  "be_nat bs = le_nat (rev bs)"

section \<open>Concrete inputs\<close>

definition UInt256_max :: UInt256 where
  "UInt256_max = \<lparr>Bytes = replicate 32 0xFF\<rparr>"

definition UInt256_one :: UInt256 where
  "UInt256_one = \<lparr>Bytes = 1 # replicate 31 0\<rparr>"

section \<open>Little-endian digits\<close>

lemma le_nat_append: "le_nat (xs @ ys) = le_nat xs + 256 ^ length xs * le_nat ys"
  by (induction xs) (simp_all add: algebra_simps)

lemma le_nat_take_Suc:
  "n < length xs \<Longrightarrow> le_nat (take (Suc n) xs) = le_nat (take n xs) + 256 ^ n * unat (xs ! n)"
  by (simp add: take_Suc_conv_app_nth le_nat_append)

lemma le_nat_bound8: "le_nat (xs :: uint8 list) < 256 ^ length xs"
proof (induction xs)
  case Nil show ?case by simp
next
  case (Cons d ds)
  have "unat d < 256" using unsigned_less [of d, where ?'a = nat] by simp
  with Cons show ?case by simp
qed

lemma le_nat_inj8: "length xs = length ys \<Longrightarrow> le_nat xs = le_nat ys \<Longrightarrow> (xs :: uint8 list) = ys"
proof (induction xs ys rule: list_induct2)
  case Nil show ?case by simp
next
  case (Cons x xs y ys)
  have lx: "unat x < 256" using unsigned_less [of x, where ?'a = nat] by simp
  have ly: "unat y < 256" using unsigned_less [of y, where ?'a = nat] by simp
  from Cons.prems have e: "unat x + 256 * le_nat xs = unat y + 256 * le_nat ys" by simp
  from e have "(unat x + 256 * le_nat xs) mod 256 = (unat y + 256 * le_nat ys) mod 256"
    by (simp only:)
  with lx ly have u: "unat x = unat y" by simp
  with e have "le_nat xs = le_nat ys" by simp
  with Cons.IH u show ?case by (simp add: word_unat_eq_iff)
qed

lemma UInt256_eqI: "Bytes A = Bytes B \<Longrightarrow> (A :: UInt256) = B"
  by simp

lemma val256_inj:
  "is_UInt256 A \<Longrightarrow> is_UInt256 B \<Longrightarrow> val256 A = val256 B \<Longrightarrow> A = B"
  by (rule UInt256_eqI, rule le_nat_inj8) (simp_all add: is_UInt256_def val256_def)

section \<open>Addition\<close>

lemma add_Sum_unat:
  fixes a b :: uint8 and c :: uint16
  assumes "unat c \<le> 1"
  shows "unat ((ucast a :: uint16) + ucast b + c) = unat a + unat b + unat c"
proof -
  have la: "unat a < 256" using unsigned_less [of a, where ?'a = nat] by simp
  have lb: "unat b < 256" using unsigned_less [of b, where ?'a = nat] by simp
  have "unat ((ucast a :: uint16) + ucast b + c) = (unat a + unat b + unat c) mod 65536"
    by (simp add: unat_word_ariths unsigned_ucast_eq take_bit_eq_mod mod_simps)
  with la lb assms show ?thesis by simp
qed

lemma low_byte_unat: "unat (ucast ((s :: uint16) AND 0xFF) :: uint8) = unat s mod 256"
proof -
  have "s AND 0xFF = take_bit 8 s" 
    by (simp add: take_bit_eq_mask mask_eq_exp_minus_1)
  then show ?thesis by (simp add: unsigned_ucast_eq unsigned_take_bit_eq take_bit_eq_mod unat_mod)
qed

lemma high_byte_unat: "unat (drop_bit 8 (s :: uint16)) = unat s div 256"
  by (simp add: drop_bit_eq_div unat_div)


lemma upt_32_step: "n < 32 \<Longrightarrow> fold f [0..<Suc n] s = f n (fold f [0..<n] s)"
  by simp

lemma add_fold_inv:
  assumes A: "length (Bytes A) = 32" and B: "length (Bytes B) = 32"
  shows "n \<le> 32 \<Longrightarrow>
     (case fold (add_iter A B) [0..<n] (UInt256_init, 0) of (Res, Carry) \<Rightarrow>
        length (Bytes Res) = 32 \<and> unat Carry \<le> 1 \<and>
        le_nat (take n (Bytes Res)) + 256 ^ n * unat Carry
          = le_nat (take n (Bytes A)) + le_nat (take n (Bytes B)))"
proof (induction n)
  case 0
  show ?case by (simp add: UInt256_init_def)
next
  case (Suc n)
  obtain Res Carry where st: "fold (add_iter A B) [0..<n] (UInt256_init, 0) = (Res, Carry)"
    by (cases "fold (add_iter A B) [0..<n] (UInt256_init, 0)")
  from Suc st have len: "length (Bytes Res) = 32" and c: "unat Carry \<le> 1"
    and inv: "le_nat (take n (Bytes Res)) + 256 ^ n * unat Carry
          = le_nat (take n (Bytes A)) + le_nat (take n (Bytes B))"
    by simp_all
  from Suc.prems have n: "n < 32" by simp
  define a where "a = unat (Bytes A ! n)"
  define b where "b = unat (Bytes B ! n)"
  define S where "S = (ucast (Bytes A ! n) :: uint16) + ucast (Bytes B ! n) + Carry"
  have S: "unat S = a + b + unat Carry"
    unfolding S_def a_def b_def by (rule add_Sum_unat [OF c])
  have la: "a < 256" unfolding a_def using unsigned_less [of "Bytes A ! n", where ?'a = nat] by simp
  have lb: "b < 256" unfolding b_def using unsigned_less [of "Bytes B ! n", where ?'a = nat] by simp
  have step: "fold (add_iter A B) [0..<Suc n] (UInt256_init, 0)
      = (Res\<lparr>Bytes := (Bytes Res)[n := ucast (S AND 0xFF)]\<rparr>, drop_bit 8 S)"
    by (simp add: st add_iter_def S_def Let_def del: drop_bit_numeral_bit0 drop_bit_numeral_bit1)
  have c': "unat (drop_bit 8 S) \<le> 1"
    using S la lb c by (simp add: high_byte_unat del: drop_bit_numeral_bit0 drop_bit_numeral_bit1)
  have "le_nat (take (Suc n) ((Bytes Res)[n := ucast (S AND 0xFF)])) + 256 ^ Suc n * unat (drop_bit 8 S)
      = le_nat (take n (Bytes Res)) + 256 ^ n * (unat S mod 256) + 256 ^ n * (256 * (unat S div 256))"
    using n len by (simp add: le_nat_take_Suc low_byte_unat high_byte_unat del: drop_bit_numeral_bit0 drop_bit_numeral_bit1)
  also have "\<dots> = le_nat (take n (Bytes Res)) + 256 ^ n * unat S"
    by (simp add: distrib_left [symmetric] del: mult_Suc_right)
  also have "\<dots> = le_nat (take (Suc n) (Bytes A)) + le_nat (take (Suc n) (Bytes B))"
    using inv n A B S by (simp add: le_nat_take_Suc a_def b_def algebra_simps)
  finally show ?case using len c' by (simp only: step) simp
qed

lemma pow256_32: "(256::nat) ^ 32 = 2 ^ 256"
  by simp

lemma mod_drop_carry: "(r::nat) < M \<Longrightarrow> r + M * c = s \<Longrightarrow> r = s mod M"
  by auto

lemma add_fold_32:
  assumes "length (Bytes A) = 32" "length (Bytes B) = 32"
    and st: "fold (add_iter A B) [0..<32] (UInt256_init, 0) = (Res, Carry)"
  shows "length (Bytes Res) = 32"
    and "le_nat (Bytes Res) + 256 ^ 32 * unat Carry = le_nat (Bytes A) + le_nat (Bytes B)"
proof -
  have inv: "length (Bytes Res) = 32 \<and> unat Carry \<le> 1 \<and>
        le_nat (take 32 (Bytes Res)) + 256 ^ 32 * unat Carry
          = le_nat (take 32 (Bytes A)) + le_nat (take 32 (Bytes B))"
    using add_fold_inv [OF assms(1,2), of 32] by (simp only: st prod.case order_refl)
  from inv show len: "length (Bytes Res) = 32" by blast
  from inv have e0: "le_nat (take 32 (Bytes Res)) + 256 ^ 32 * unat Carry
               = le_nat (take 32 (Bytes A)) + le_nat (take 32 (Bytes B))"
    by blast
  from e0 len assms(1,2)
  show "le_nat (Bytes Res) + 256 ^ 32 * unat Carry = le_nat (Bytes A) + le_nat (Bytes B)"
    by (simp only: take_all order_refl)
qed

lemma addUInt256_length:
  assumes "length (Bytes A) = 32" "length (Bytes B) = 32"
  shows "length (Bytes (addUInt256 A B)) = 32"
proof -
  obtain Res Carry where st: "fold (add_iter A B) [0..<32] (UInt256_init, 0) = (Res, Carry)"
    by (cases "fold (add_iter A B) [0..<32] (UInt256_init, 0)")
  from add_fold_32(1) [OF assms st] show ?thesis
    unfolding addUInt256_def st fst_conv .
qed

lemma addUInt256_val:
  assumes "length (Bytes A) = 32" "length (Bytes B) = 32"
  shows "val256 (addUInt256 A B) = (val256 A + val256 B) mod 2 ^ 256"
proof -
  obtain Res Carry where st: "fold (add_iter A B) [0..<32] (UInt256_init, 0) = (Res, Carry)"
    by (cases "fold (add_iter A B) [0..<32] (UInt256_init, 0)")
  note len = add_fold_32(1) [OF assms st] and e = add_fold_32(2) [OF assms st]
  have b: "le_nat (Bytes Res) < 256 ^ 32"
    using le_nat_bound8 [of "Bytes Res"] by (simp only: len)
  have "le_nat (Bytes Res) = (le_nat (Bytes A) + le_nat (Bytes B)) mod 256 ^ 32"
    using b e by (rule mod_drop_carry)
  then show ?thesis
    unfolding addUInt256_def val256_def st fst_conv pow256_32 .
qed

text \<open>
  Claim C2. For all 256-bit words \<open>A\<close> and \<open>B\<close>, \<open>addUInt256 A B\<close> is a 256-bit word (the
  function is total: it has no error result) whose value is \<open>A + B\<close> modulo \<open>2 ^ 256\<close>,
  the carry out of byte 31 being dropped, and addition is commutative.
\<close>

theorem addUInt256_mod:
  assumes A: "is_UInt256 A" and B: "is_UInt256 B"
  shows "is_UInt256 (addUInt256 A B)
       \<and> val256 (addUInt256 A B) = (val256 A + val256 B) mod 2 ^ 256
       \<and> addUInt256 A B = addUInt256 B A"
proof -
  from A B have lA: "length (Bytes A) = 32" and lB: "length (Bytes B) = 32"
    by (simp_all add: is_UInt256_def)
  have w1: "is_UInt256 (addUInt256 A B)" and w2: "is_UInt256 (addUInt256 B A)"
    using addUInt256_length [OF lA lB] addUInt256_length [OF lB lA]
    by (simp_all add: is_UInt256_def)
  have v1: "val256 (addUInt256 A B) = (val256 A + val256 B) mod 2 ^ 256"
    by (rule addUInt256_val [OF lA lB])
  have v2: "val256 (addUInt256 B A) = (val256 B + val256 A) mod 2 ^ 256"
    by (rule addUInt256_val [OF lB lA])
  have "val256 (addUInt256 A B) = val256 (addUInt256 B A)"
    by (simp only: v1 v2 add.commute)
  with w1 w2 have "addUInt256 A B = addUInt256 B A" by (rule val256_inj)
  with w1 v1 show ?thesis by simp
qed

theorem addUInt256_mod_witness:
  "is_UInt256 UInt256_max \<and> is_UInt256 UInt256_one
   \<and> is_UInt256 (addUInt256 UInt256_max UInt256_one)
   \<and> val256 (addUInt256 UInt256_max UInt256_one) = (val256 UInt256_max + val256 UInt256_one) mod 2 ^ 256
   \<and> addUInt256 UInt256_max UInt256_one = addUInt256 UInt256_one UInt256_max"
proof -
  have a: "is_UInt256 UInt256_max" by (simp add: is_UInt256_def UInt256_max_def)
  have b: "is_UInt256 UInt256_one" by (simp add: is_UInt256_def UInt256_one_def)
  from a b addUInt256_mod [OF a b] show ?thesis by (intro conjI) (erule conjE | assumption)+
qed

end
